theory Spec2Isabelle
  imports Complex_Main "HOL-Library.Multiset"
begin

section \<open>Values shared by both components\<close>

subsection \<open>Exceptions\<close>

text \<open>
  A rejected promise or a thrown exception is a value of type \<open>exn\<close>; every
  asynchronous function of the source returns \<open>exn + 'a\<close>, with \<open>Inl\<close> for the rejection.
  \<open>RubicSdkError\<close> and \<open>RubicError\<close> are the two error classes the source throws itself (with
  their message); the other constructors stand for errors raised by the collaborators
  (HTTP client, web3, the timeout helper).
\<close>

datatype exn =
    RubicSdkError string
  | RubicError string
  | HttpError string
  | Web3Error string
  | TimeoutError

subsection \<open>BigNumber\<close>

text \<open>
  The values of bignumber.js: finite decimals (here rationals), the two infinities and NaN.
  Only the three operations used by the ranking code are modelled. \<open>dividedBy\<close> rounds the
  quotient to \<open>DECIMAL_PLACES\<close> decimal places, half away from zero (the library defaults
  \<open>DECIMAL_PLACES = 20\<close>, \<open>ROUNDING_MODE = ROUND_HALF_UP\<close>); \<open>comparedTo\<close> returns \<open>null\<close>
  (here \<open>None\<close>) when an operand is NaN. The sign of zero is not represented.
\<close>

datatype bignumber = Finite rat | PosInfinity | NegInfinity | NaN

definition DECIMAL_PLACES :: nat where
  "DECIMAL_PLACES = 20"

definition round_half_up :: "rat \<Rightarrow> rat" where
  "round_half_up q =
     (if q < 0
      then - (of_int \<lfloor>(- q) * 10 ^ DECIMAL_PLACES + 1 / 2\<rfloor>) / 10 ^ DECIMAL_PLACES
      else of_int \<lfloor>q * 10 ^ DECIMAL_PLACES + 1 / 2\<rfloor> / 10 ^ DECIMAL_PLACES)"

fun plus_bn :: "bignumber \<Rightarrow> bignumber \<Rightarrow> bignumber" where
  "plus_bn NaN y = NaN"
| "plus_bn x NaN = NaN"
| "plus_bn (Finite a) (Finite b) = Finite (a + b)"
| "plus_bn PosInfinity NegInfinity = NaN"
| "plus_bn NegInfinity PosInfinity = NaN"
| "plus_bn PosInfinity y = PosInfinity"
| "plus_bn NegInfinity y = NegInfinity"
| "plus_bn (Finite a) y = y"

fun dividedBy :: "bignumber \<Rightarrow> bignumber \<Rightarrow> bignumber" where
  "dividedBy NaN y = NaN"
| "dividedBy x NaN = NaN"
| "dividedBy (Finite a) (Finite b) =
     (if b = 0
      then (if a = 0 then NaN else if 0 < a then PosInfinity else NegInfinity)
      else Finite (round_half_up (a / b)))"
| "dividedBy (Finite a) y = Finite 0"
| "dividedBy PosInfinity (Finite b) = (if b < 0 then NegInfinity else PosInfinity)"
| "dividedBy NegInfinity (Finite b) = (if b < 0 then PosInfinity else NegInfinity)"
| "dividedBy x y = NaN"

fun comparedTo :: "bignumber \<Rightarrow> bignumber \<Rightarrow> int option" where
  "comparedTo NaN y = None"
| "comparedTo x NaN = None"
| "comparedTo (Finite a) (Finite b) = Some (if a < b then - 1 else if a = b then 0 else 1)"
| "comparedTo NegInfinity NegInfinity = Some 0"
| "comparedTo PosInfinity PosInfinity = Some 0"
| "comparedTo NegInfinity y = Some (- 1)"
| "comparedTo x PosInfinity = Some (- 1)"
| "comparedTo x y = Some 1"

subsection \<open>Array.prototype.sort\<close>

text \<open>
  \<open>Array.prototype.sort(comparefn)\<close> belongs to the JavaScript engine. When \<open>comparefn\<close> is a
  consistent comparator for the elements of the array, ECMAScript prescribes the result:
  the elements in ascending order, equal ones in their original order. \<open>array_sort\<close> is
  that stable sort, computed by straight insertion: the elements are taken in array
  order, and each one is moved left past every already placed element \<open>e\<close> for which
  \<open>comparefn(e, x) > 0\<close>. \<open>sift\<close> works on the placed prefix with its last element
  first.
\<close>

fun sift :: "('a \<Rightarrow> 'a \<Rightarrow> int) \<Rightarrow> 'a \<Rightarrow> 'a list \<Rightarrow> 'a list" where
  "sift comparefn x [] = [x]"
| "sift comparefn x (e # es) =
     (if 0 < comparefn e x then e # sift comparefn x es else x # e # es)"

definition array_sort :: "('a \<Rightarrow> 'a \<Rightarrow> int) \<Rightarrow> 'a list \<Rightarrow> 'a list" where
  "array_sort comparefn xs = rev (fold (sift comparefn) xs [])"

text \<open>
  The consistent comparators of ECMAScript, for the elements of \<open>xs\<close>: \<open>comparefn(a, a)\<close> is
  \<open>0\<close>, equality is symmetric and transitive, and so are \<open><\<close> and \<open>>\<close>.
\<close>

definition consistent_comparator :: "('a \<Rightarrow> 'a \<Rightarrow> int) \<Rightarrow> 'a list \<Rightarrow> bool" where
  "consistent_comparator comparefn xs \<longleftrightarrow>
     (\<forall>a \<in> set xs. comparefn a a = 0)
   \<and> (\<forall>a \<in> set xs. \<forall>b \<in> set xs. comparefn a b = 0 \<longrightarrow> comparefn b a = 0)
   \<and> (\<forall>a \<in> set xs. \<forall>b \<in> set xs. \<forall>c \<in> set xs.
        (comparefn a b = 0 \<and> comparefn b c = 0 \<longrightarrow> comparefn a c = 0)
      \<and> (comparefn a b < 0 \<and> comparefn b c < 0 \<longrightarrow> comparefn a c < 0)
      \<and> (0 < comparefn a b \<and> 0 < comparefn b c \<longrightarrow> 0 < comparefn a c))"

text \<open>
  When \<open>comparefn\<close> is not a consistent comparator for the elements, the sort order is
  implementation-defined: it is what the engine at hand produces, and \<open>engine\<close> stands for
  that. Nothing is known of \<open>engine\<close> but what a theorem assumes of it.
\<close>

definition Array_prototype_sort ::
  "(('a \<Rightarrow> 'a \<Rightarrow> int) \<Rightarrow> 'a list \<Rightarrow> 'a list) \<Rightarrow> ('a \<Rightarrow> 'a \<Rightarrow> int) \<Rightarrow> 'a list \<Rightarrow> 'a list" where
  "Array_prototype_sort engine comparefn xs =
     (if consistent_comparator comparefn xs then array_sort comparefn xs
      else engine comparefn xs)"

section \<open>Web3Public: batched reads\<close>

subsection \<open>rpcBatchRequest\<close>

record 'p rpc_call_data =
  rpcMethod :: string
  params :: 'p

record 'p rpc_request =
  request_id :: int
  jsonrpc :: string
  rpc_method :: string
  request_params :: "'p list"

text \<open>
  \<open>RpcResponse<T>\<close>: the node answers a call either with \<open>result\<close> or with \<open>error\<close>;
  an absent field is \<open>None\<close>.
\<close>

record 'a rpc_response =
  response_id :: int
  result :: "'a option"
  error :: "string option"

text \<open>The request envelope: call number \<open>index\<close> gets the id \<open>seed + index\<close>.\<close>

definition rpc_batch :: "int \<Rightarrow> 'p rpc_call_data list \<Rightarrow> 'p rpc_request list" where
  "rpc_batch seed rpcCallsData =
     map (\<lambda>(callData, index).
            \<lparr>request_id = seed + int index, jsonrpc = ''2.0'',
             rpc_method = rpcMethod callData, request_params = [params callData]\<rparr>)
         (zip rpcCallsData [0..<length rpcCallsData])"

text \<open>\<open>item => (item.error ? null : item.result)\<close>\<close>

definition item_value :: "'a rpc_response \<Rightarrow> 'a option" where
  "item_value item = (if error item \<noteq> None then None else result item)"

text \<open>
  \<open>seed\<close> is \<open>Date.now()\<close>; \<open>post\<close> is the HTTP client's \<open>post\<close> to the provider's host,
  whose rejection is the transport-level failure. The ids of the responses are integers,
  so \<open>(a, b) => a.id - b.id\<close> is a consistent comparator and the sort is \<open>array_sort\<close> on
  every engine.
\<close>

definition rpcBatchRequest ::
  "int \<Rightarrow> (string \<Rightarrow> 'p rpc_request list \<Rightarrow> exn + 'a rpc_response list) \<Rightarrow> string
     \<Rightarrow> 'p rpc_call_data list \<Rightarrow> exn + 'a option list" where
  "rpcBatchRequest seed post host rpcCallsData =
     (let batch = rpc_batch seed rpcCallsData in
      case post host batch of
        Inl e \<Rightarrow> Inl e
      | Inr response \<Rightarrow>
          Inr (map item_value
                 (array_sort (\<lambda>a b. response_id a - response_id b) response)))"

subsection \<open>batchEstimatedGas\<close>

text \<open>
  A callback that may throw, mapped over an array: the first exception ends the map.
\<close>

fun map_throwing :: "('a \<Rightarrow> exn + 'b) \<Rightarrow> 'a list \<Rightarrow> exn + 'b list" where
  "map_throwing f [] = Inr []"
| "map_throwing f (x # xs) =
     (case f x of
        Inl e \<Rightarrow> Inl e
      | Inr y \<Rightarrow> (case map_throwing f xs of Inl e \<Rightarrow> Inl e | Inr ys \<Rightarrow> Inr (y # ys)))"

record batch_call =
  contractMethod :: string
  call_params :: "string list"
  call_value :: "string option"

record estimate_gas_params =
  tx_from :: string
  tx_to :: string
  tx_data :: string
  tx_value :: "string option"

text \<open>
  \<open>encodeABI\<close> is \<open>contract.methods[name](...args).encodeABI()\<close> of web3 and
  \<open>toBigNumber\<close> the constructor \<open>new BigNumber(string)\<close>; the \<open>value\<close> of a call is a
  string, empty or absent when there is none. The body of the \<open>try\<close> is
  \<open>batchEstimatedGas_try\<close>; the \<open>catch\<close> handler turns every exception into one \<open>null\<close>
  per call.
\<close>

definition batchEstimatedGas_try ::
  "(string \<Rightarrow> string list \<Rightarrow> exn + string) \<Rightarrow> (string \<Rightarrow> bignumber)
     \<Rightarrow> int \<Rightarrow> (string \<Rightarrow> estimate_gas_params rpc_request list \<Rightarrow> exn + string rpc_response list)
     \<Rightarrow> string \<Rightarrow> string \<Rightarrow> string \<Rightarrow> batch_call list \<Rightarrow> exn + bignumber option list" where
  "batchEstimatedGas_try encodeABI toBigNumber seed post host contractAddress fromAddress callsData =
     (case map_throwing (\<lambda>callData. encodeABI (contractMethod callData) (call_params callData))
             callsData of
        Inl e \<Rightarrow> Inl e
      | Inr dataList \<Rightarrow>
          (let rpcCallsData =
                 map (\<lambda>(data, index).
                        \<lparr>rpcMethod = ''eth_estimateGas'',
                         params = \<lparr>tx_from = fromAddress, tx_to = contractAddress, tx_data = data,
                                   tx_value =
                                     (case call_value (callsData ! index) of
                                        None \<Rightarrow> None
                                      | Some v \<Rightarrow> if v = [] then None else Some (''0x'' @ v))\<rparr>\<rparr>)
                     (zip dataList [0..<length dataList])
           in case rpcBatchRequest seed post host rpcCallsData of
                Inl e \<Rightarrow> Inl e
              | Inr res \<Rightarrow>
                  Inr (map (\<lambda>v. case v of
                                   None \<Rightarrow> None
                                 | Some s \<Rightarrow> if s = [] then None else Some (toBigNumber s))
                         res)))"

definition batchEstimatedGas ::
  "(string \<Rightarrow> string list \<Rightarrow> exn + string) \<Rightarrow> (string \<Rightarrow> bignumber)
     \<Rightarrow> int \<Rightarrow> (string \<Rightarrow> estimate_gas_params rpc_request list \<Rightarrow> exn + string rpc_response list)
     \<Rightarrow> string \<Rightarrow> string \<Rightarrow> string \<Rightarrow> batch_call list \<Rightarrow> exn + bignumber option list" where
  "batchEstimatedGas encodeABI toBigNumber seed post host contractAddress fromAddress callsData =
     (case batchEstimatedGas_try encodeABI toBigNumber seed post host contractAddress fromAddress
             callsData of
        Inl e \<Rightarrow> Inr (map (\<lambda>_. None) callsData)
      | Inr res \<Rightarrow> Inr res)"

subsection \<open>multicall and multicallContractMethod\<close>

record call =
  target :: string
  callData :: string

record multicall_response =
  success :: bool
  returnData :: string




subsection \<open>getTokensBalances\<close>

text \<open>\<open>Array.prototype.findIndex\<close>: the first index whose element satisfies the predicate, or \<open>-1\<close>.\<close>

fun findIndex :: "('a \<Rightarrow> bool) \<Rightarrow> 'a list \<Rightarrow> int" where
  "findIndex P [] = - 1"
| "findIndex P (x # xs) =
     (if P x then 0 else (let i = findIndex P xs in if i = - 1 then - 1 else i + 1))"

text \<open>
  \<open>Array.prototype.splice(start, deleteCount, ...items)\<close> for \<open>0 \<le> start\<close>: the array after
  the call (a start beyond the end is the end).
\<close>

definition splice :: "'a list \<Rightarrow> nat \<Rightarrow> nat \<Rightarrow> 'a list \<Rightarrow> 'a list" where
  "splice xs start deleteCount items = take start xs @ items @ drop (start + deleteCount) xs"

text \<open>
  \<open>Promise.all\<close> of two promises: the values are collected by slot; it rejects with the
  rejection that happens first. \<open>second_first\<close> tells that the promise in slot 1 settles
  before the one in slot 0.
\<close>

definition promise_all2 :: "bool \<Rightarrow> exn + 'a \<Rightarrow> exn + 'b \<Rightarrow> exn + 'a \<times> 'b" where
  "promise_all2 second_first p0 p1 =
     (if second_first
      then (case p1 of
              Inl e \<Rightarrow> Inl e
            | Inr b \<Rightarrow> (case p0 of Inl e \<Rightarrow> Inl e | Inr a \<Rightarrow> Inr (a, b)))
      else (case p0 of
              Inl e \<Rightarrow> Inl e
            | Inr a \<Rightarrow> (case p1 of Inl e \<Rightarrow> Inl e | Inr b \<Rightarrow> Inr (a, b))))"

text \<open>
  \<open>isNativeAddress\<close> is \<open>Web3Pure.isNativeAddress\<close>, \<open>balanceOfData\<close> the encoded call
  \<open>balanceOf(address)\<close>, \<open>eth_getBalance\<close> the node's native balance query behind
  \<open>this.getBalance(address)\<close>. The function returns the caller's array \<open>tokensAddresses\<close> as
  it is after the call, together with the settled promise.
\<close>

definition getTokensBalances ::
  "(string \<Rightarrow> bool) \<Rightarrow> (string \<Rightarrow> string) \<Rightarrow> (call list \<Rightarrow> exn + multicall_response list)
     \<Rightarrow> (string \<Rightarrow> exn + string) \<Rightarrow> (string \<Rightarrow> bignumber) \<Rightarrow> bool
     \<Rightarrow> string \<Rightarrow> string list \<Rightarrow> string list \<times> (exn + bignumber list)" where
  "getTokensBalances isNativeAddress balanceOfData tryAggregate eth_getBalance toBigNumber
       second_first address tokensAddresses =
     (let indexOfNativeCoin = findIndex isNativeAddress tokensAddresses;
          tokensAddresses' =
            (if indexOfNativeCoin \<noteq> - 1
             then splice tokensAddresses (nat indexOfNativeCoin) 1 []
             else tokensAddresses);
          calls = map (\<lambda>tokenAddress. \<lparr>target = tokenAddress, callData = balanceOfData address\<rparr>)
                    tokensAddresses';
          balance = (\<lambda>r. if success r then toBigNumber (returnData r) else Finite 0)
      in if indexOfNativeCoin \<noteq> - 1
         then (tokensAddresses',
               case promise_all2 second_first (tryAggregate calls)
                      (case eth_getBalance address of
                         Inl e \<Rightarrow> Inl e
                       | Inr b \<Rightarrow> Inr (toBigNumber b)) of
                 Inl e \<Rightarrow> Inl e
               | Inr (results0, results1) \<Rightarrow>
                   Inr (splice (map balance results0) (nat indexOfNativeCoin) 0 [results1]))
         else (tokensAddresses',
               case tryAggregate calls of
                 Inl e \<Rightarrow> Inl e
               | Inr results0 \<Rightarrow> Inr (map balance results0)))"

section \<open>CrossChainManager: calculation and ranking of quotes\<close>

subsection \<open>Tokens, trades and options\<close>

type_synonym blockchain_name = string

record price_token =
  blockchain :: blockchain_name
  address :: string
  price :: bignumber

record price_token_amount = price_token +
  tokenAmount :: bignumber

text \<open>
  The argument of \<open>calculateTrade\<close>: an instance of class \<open>Token\<close>, or a plain object
  \<open>{address, blockchain}\<close>.
\<close>

datatype token_input =
    Token (input_address: string) (input_blockchain: blockchain_name)
  | PlainObject (input_address: string) (input_blockchain: blockchain_name)

fun instanceof_Token :: "token_input \<Rightarrow> bool" where
  "instanceof_Token (Token a b) = True"
| "instanceof_Token (PlainObject a b) = False"

datatype cross_chain_trade_type = RUBIC | CELER | SYMBIOSIS | LIFI

text \<open>
  A trade is an instance of one of the trade classes; the ranking code tells
  \<open>LifiCrossChainTrade\<close> and \<open>CelerCrossChainTrade\<close> from the others by \<open>instanceof\<close>. Only a
  Celer trade has a \<open>cryptoFeeToken\<close>, of which the ranking reads the \<open>price\<close>.
\<close>

datatype cross_chain_trade =
    CelerCrossChainTrade (trade_from: price_token_amount) (trade_to: price_token_amount)
      (cryptoFeeToken: price_token)
  | LifiCrossChainTrade (trade_from: price_token_amount) (trade_to: price_token_amount)
  | OtherCrossChainTrade (trade_from: price_token_amount) (trade_to: price_token_amount)

fun instanceof_Lifi :: "cross_chain_trade \<Rightarrow> bool" where
  "instanceof_Lifi (LifiCrossChainTrade f t) = True"
| "instanceof_Lifi other = False"

fun instanceof_Celer :: "cross_chain_trade \<Rightarrow> bool" where
  "instanceof_Celer (CelerCrossChainTrade f t c) = True"
| "instanceof_Celer other = False"

text \<open>
  What a provider's \<open>calculate\<close> resolves to (\<open>Omit<WrappedCrossChainTrade, 'tradeType'>\<close>),
  and the wrapped trade the manager makes of it.
\<close>

record calculated_trade =
  trade :: "cross_chain_trade option"
  trade_error :: "exn option"

record wrapped_cross_chain_trade = calculated_trade +
  tradeType :: cross_chain_trade_type

record required_cross_chain_options =
  fromSlippageTolerance :: rat
  toSlippageTolerance :: rat
  gasCalculation :: string
  providerAddress :: string
  slippageTolerance :: rat
  deadline :: nat

record required_swap_manager_options = required_cross_chain_options +
  disabledProviders :: "cross_chain_trade_type list"
  timeout :: nat

text \<open>The caller's options: every field may be absent.\<close>

record swap_manager_options =
  opt_fromSlippageTolerance :: "rat option"
  opt_toSlippageTolerance :: "rat option"
  opt_gasCalculation :: "string option"
  opt_slippageTolerance :: "rat option"
  opt_deadline :: "nat option"
  opt_disabledProviders :: "cross_chain_trade_type list option"
  opt_timeout :: "nat option"

record cross_chain_trade_provider =
  provider_type :: cross_chain_trade_type
  calculate :: "price_token_amount \<Rightarrow> price_token \<Rightarrow> required_cross_chain_options
                  \<Rightarrow> exn + calculated_trade option"

subsection \<open>The manager and its collaborators\<close>

text \<open>
  The four provider classes are instantiated by the manager, each with the \<open>type\<close> of its
  class; what each one's \<open>calculate\<close> promise settles to is given. \<open>celerIsSupportedBlockchain\<close> is the static
  \<open>CelerCrossChainTradeProvider.isSupportedBlockchain\<close>, \<open>pTimeout\<close> the deadline race (it
  maps the settled calculation and the timeout to the settled race),
  \<open>getPriceTokensFromInputTokens\<close> the resolution of the two input tokens into priced
  tokens, and \<open>implementation_defined_sort\<close> the order in which the engine the manager runs
  on leaves an array sorted with a comparator that is not consistent.
\<close>

record cross_chain_manager =
  manager_providerAddress :: string
  rubicCalculate :: "price_token_amount \<Rightarrow> price_token \<Rightarrow> required_cross_chain_options
                       \<Rightarrow> exn + calculated_trade option"
  celerCalculate :: "price_token_amount \<Rightarrow> price_token \<Rightarrow> required_cross_chain_options
                       \<Rightarrow> exn + calculated_trade option"
  symbiosisCalculate :: "price_token_amount \<Rightarrow> price_token \<Rightarrow> required_cross_chain_options
                           \<Rightarrow> exn + calculated_trade option"
  lifiCalculate :: "price_token_amount \<Rightarrow> price_token \<Rightarrow> required_cross_chain_options
                      \<Rightarrow> exn + calculated_trade option"
  celerIsSupportedBlockchain :: "blockchain_name \<Rightarrow> bool"
  pTimeout :: "exn + calculated_trade option \<Rightarrow> nat \<Rightarrow> exn + calculated_trade option"
  getPriceTokensFromInputTokens ::
    "token_input \<Rightarrow> string \<Rightarrow> token_input \<Rightarrow> exn + price_token_amount \<times> price_token"
  implementation_defined_sort ::
    "(wrapped_cross_chain_trade \<Rightarrow> wrapped_cross_chain_trade \<Rightarrow> int)
       \<Rightarrow> wrapped_cross_chain_trade list \<Rightarrow> wrapped_cross_chain_trade list"

text \<open>
  \<open>acc[provider.type] = provider\<close> on an object: an existing key keeps its place, a new
  key goes last; \<open>Object.entries\<close> lists the keys in that order.
\<close>

fun object_set :: "('k \<times> 'v) list \<Rightarrow> 'k \<Rightarrow> 'v \<Rightarrow> ('k \<times> 'v) list" where
  "object_set [] k v = [(k, v)]"
| "object_set ((k', v') # kvs) k v =
     (if k' = k then (k, v) # kvs else (k', v') # object_set kvs k v)"

definition tradeProviders ::
  "cross_chain_manager \<Rightarrow> (cross_chain_trade_type \<times> cross_chain_trade_provider) list" where
  "tradeProviders m =
     fold (\<lambda>provider acc. object_set acc (provider_type provider) provider)
       [\<lparr>provider_type = RUBIC, calculate = rubicCalculate m\<rparr>,
        \<lparr>provider_type = CELER, calculate = celerCalculate m\<rparr>,
        \<lparr>provider_type = SYMBIOSIS, calculate = symbiosisCalculate m\<rparr>,
        \<lparr>provider_type = LIFI, calculate = lifiCalculate m\<rparr>]
       []"

definition defaultCalculationTimeout :: nat where
  "defaultCalculationTimeout = 20000"

definition defaultSlippageTolerance :: rat where
  "defaultSlippageTolerance = 2 / 100"

definition defaultDeadline :: nat where
  "defaultDeadline = 20"

text \<open>\<open>combineOptions\<close>: a field the caller left out takes the default.\<close>

definition getFullOptions ::
  "cross_chain_manager \<Rightarrow> swap_manager_options \<Rightarrow> required_swap_manager_options" where
  "getFullOptions m options =
     \<lparr>fromSlippageTolerance =
        (case opt_fromSlippageTolerance options of Some v \<Rightarrow> v | None \<Rightarrow> defaultSlippageTolerance),
      toSlippageTolerance =
        (case opt_toSlippageTolerance options of Some v \<Rightarrow> v | None \<Rightarrow> defaultSlippageTolerance),
      gasCalculation = (case opt_gasCalculation options of Some v \<Rightarrow> v | None \<Rightarrow> ''enabled''),
      providerAddress = manager_providerAddress m,
      slippageTolerance =
        (case opt_slippageTolerance options of
           Some v \<Rightarrow> v
         | None \<Rightarrow> defaultSlippageTolerance * 2),
      deadline = (case opt_deadline options of Some v \<Rightarrow> v | None \<Rightarrow> defaultDeadline),
      disabledProviders = (case opt_disabledProviders options of Some v \<Rightarrow> v | None \<Rightarrow> []),
      timeout = (case opt_timeout options of Some v \<Rightarrow> v | None \<Rightarrow> defaultCalculationTimeout)\<rparr>"

subsection \<open>calculateTradeFromTokens\<close>

text \<open>
  What a calculation does besides returning: it asks for the priced tokens, and it
  invokes \<open>calculate\<close> on providers. The functions below return the list of these events,
  in order, with the settled promise.
\<close>

datatype event = PriceTokensRequested | ProviderCalculate cross_chain_trade_type

text \<open>The callback of the \<open>filter\<close> over \<open>Object.entries(this.tradeProviders)\<close>.\<close>

definition provider_enabled ::
  "cross_chain_manager \<Rightarrow> cross_chain_trade_type list \<Rightarrow> blockchain_name \<Rightarrow> blockchain_name
     \<Rightarrow> cross_chain_trade_type \<times> cross_chain_trade_provider \<Rightarrow> bool" where
  "provider_enabled m disabled fromBlockchain toBlockchain entry =
     (if fst entry \<in> set disabled then False
      else if fst entry = RUBIC \<and> celerIsSupportedBlockchain m fromBlockchain
                \<and> celerIsSupportedBlockchain m toBlockchain then False
      else True)"

text \<open>
  One element of \<open>calculationPromises\<close>: the provider's calculation raced against the
  timeout; \<open>null\<close> and every rejection become \<open>null\<close>.
\<close>

definition calculationPromise ::
  "cross_chain_manager \<Rightarrow> price_token_amount \<Rightarrow> price_token \<Rightarrow> required_cross_chain_options
     \<Rightarrow> nat \<Rightarrow> cross_chain_trade_type \<times> cross_chain_trade_provider
     \<Rightarrow> wrapped_cross_chain_trade option" where
  "calculationPromise m from_token to_token providersOptions timeout_ms entry =
     (case pTimeout m (calculate (snd entry) from_token to_token providersOptions) timeout_ms of
        Inl e \<Rightarrow> None
      | Inr None \<Rightarrow> None
      | Inr (Some wrappedTrade) \<Rightarrow>
          Some \<lparr>trade = trade wrappedTrade, trade_error = trade_error wrappedTrade,
                tradeType = provider_type (snd entry)\<rparr>)"

definition providersOptions_of :: "required_swap_manager_options \<Rightarrow> required_cross_chain_options" where
  "providersOptions_of options =
     \<lparr>fromSlippageTolerance = fromSlippageTolerance options,
      toSlippageTolerance = toSlippageTolerance options,
      gasCalculation = gasCalculation options,
      providerAddress = providerAddress options,
      slippageTolerance = slippageTolerance options,
      deadline = deadline options\<rparr>"

definition calculateTradeFromTokens ::
  "cross_chain_manager \<Rightarrow> price_token_amount \<Rightarrow> price_token \<Rightarrow> required_swap_manager_options
     \<Rightarrow> event list \<times> (exn + wrapped_cross_chain_trade list)" where
  "calculateTradeFromTokens m from_token to_token options =
     (let providers =
            filter (provider_enabled m (disabledProviders options)
                      (blockchain from_token) (blockchain to_token))
              (tradeProviders m)
      in if providers = []
         then ([], Inl (RubicSdkError ''There are no providers for trade''))
         else
           (let results =
                  List.map_filter
                    (calculationPromise m from_token to_token (providersOptions_of options)
                       (timeout options))
                    providers
            in (map (\<lambda>entry. ProviderCalculate (fst entry)) providers,
                if results = []
                then Inl (RubicSdkError ''No success providers calculation for the trade'')
                else Inr results)))"

subsection \<open>Ranking\<close>

text \<open>
  \<open>fromTokenPrice\<close> is a BigNumber object or \<open>undefined\<close>; an object is truthy whatever
  its value, so \<open>!fromTokenPrice\<close> holds for \<open>undefined\<close> (\<open>None\<close>) only.
\<close>

definition getProviderRatio :: "cross_chain_trade option \<Rightarrow> bignumber option \<Rightarrow> bignumber" where
  "getProviderRatio trade_opt fromTokenPrice =
     (case trade_opt of
        None \<Rightarrow> PosInfinity
      | Some t \<Rightarrow>
          (case fromTokenPrice of
             None \<Rightarrow> PosInfinity
           | Some p \<Rightarrow>
               if instanceof_Celer t
               then dividedBy (plus_bn p (price (cryptoFeeToken t))) (tokenAmount (trade_to t))
               else dividedBy p (tokenAmount (trade_to t))))"

text \<open>
  \<open>wrappedTrades.find(w => w.trade instanceof LifiCrossChainTrade)?.trade.from.price\<close>
\<close>

definition fromTokenPrice_of :: "wrapped_cross_chain_trade list \<Rightarrow> bignumber option" where
  "fromTokenPrice_of wrappedTrades =
     (case find (\<lambda>wrappedTrade.
                   case trade wrappedTrade of None \<Rightarrow> False | Some t \<Rightarrow> instanceof_Lifi t)
             wrappedTrades of
        None \<Rightarrow> None
      | Some wrappedTrade \<Rightarrow>
          (case trade wrappedTrade of None \<Rightarrow> None | Some t \<Rightarrow> Some (price (trade_from t))))"

text \<open>The comparator of the fallback sort, \<open>tradeA => (tradeA?.trade ? -1 : 1)\<close>.\<close>

definition fallbackCompare ::
  "wrapped_cross_chain_trade \<Rightarrow> wrapped_cross_chain_trade \<Rightarrow> int" where
  "fallbackCompare tradeA tradeB = (if trade tradeA \<noteq> None then - 1 else 1)"

text \<open>
  The comparator of the ratio sort; the engine reads the \<open>null\<close> that \<open>comparedTo\<close> returns
  for NaN as \<open>0\<close> (with a NaN ratio among others the comparator is not consistent).
\<close>

definition ratioCompare ::
  "bignumber \<Rightarrow> wrapped_cross_chain_trade \<Rightarrow> wrapped_cross_chain_trade \<Rightarrow> int" where
  "ratioCompare fromTokenPrice firstTrade secondTrade =
     (let firstTradeRatio = getProviderRatio (trade firstTrade) (Some fromTokenPrice);
          secondTradeRatio = getProviderRatio (trade secondTrade) (Some fromTokenPrice)
      in case comparedTo firstTradeRatio secondTradeRatio of None \<Rightarrow> 0 | Some v \<Rightarrow> v)"

text \<open>The part of \<open>calculateBestTradeFromTokens\<close> after the trades have been collected.\<close>

definition sortTrades ::
  "cross_chain_manager \<Rightarrow> wrapped_cross_chain_trade list \<Rightarrow> wrapped_cross_chain_trade list" where
  "sortTrades m wrappedTrades =
     (case fromTokenPrice_of wrappedTrades of
        None \<Rightarrow>
          Array_prototype_sort (implementation_defined_sort m) fallbackCompare wrappedTrades
      | Some fromTokenPrice \<Rightarrow>
          Array_prototype_sort (implementation_defined_sort m) (ratioCompare fromTokenPrice)
            wrappedTrades)"

text \<open>
  \<open>options\<close> is complete already, so the second \<open>getFullOptions\<close> of the source leaves it
  as it is.
\<close>

definition calculateBestTradeFromTokens ::
  "cross_chain_manager \<Rightarrow> price_token_amount \<Rightarrow> price_token \<Rightarrow> required_swap_manager_options
     \<Rightarrow> event list \<times> (exn + wrapped_cross_chain_trade list)" where
  "calculateBestTradeFromTokens m from_token to_token options =
     (case calculateTradeFromTokens m from_token to_token options of
        (events, Inl e) \<Rightarrow> (events, Inl e)
      | (events, Inr wrappedTrades) \<Rightarrow> (events, Inr (sortTrades m wrappedTrades)))"

subsection \<open>calculateTrade\<close>

definition calculateTrade ::
  "cross_chain_manager \<Rightarrow> token_input \<Rightarrow> string \<Rightarrow> token_input \<Rightarrow> swap_manager_options
     \<Rightarrow> event list \<times> (exn + wrapped_cross_chain_trade list)" where
  "calculateTrade m fromToken fromAmount toToken options =
     (if instanceof_Token toToken \<and> input_blockchain fromToken = input_blockchain toToken
      then ([], Inl (RubicSdkError ''Blockchains of from and to tokens must be different.''))
      else
        (case getPriceTokensFromInputTokens m fromToken fromAmount toToken of
           Inl e \<Rightarrow> ([PriceTokensRequested], Inl e)
         | Inr (from_token, to_token) \<Rightarrow>
             (case calculateBestTradeFromTokens m from_token to_token (getFullOptions m options) of
                (events, r) \<Rightarrow> (PriceTokensRequested # events, r))))"

subsection \<open>Reading the ranking\<close>



section \<open>Example data\<close>

text \<open>
  A request from a token on Ethereum to a token on BSC, three successful quotes and a
  failed one, a manager whose Celer and Li.Fi providers quote while Rubic has no trade and
  Symbiosis rejects, a manager none of whose providers quotes, and a manager whose Li.Fi
  provider resolves to an object that carries an error and no trade. Their engine orders
  an array with an inconsistent comparator as the straight insertion does.
\<close>

definition example_from :: price_token_amount where
  "example_from =
     \<lparr>blockchain = ''ETH'', address = ''0xA0'', price = Finite 2, tokenAmount = Finite 10\<rparr>"

definition example_to :: price_token where
  "example_to = \<lparr>blockchain = ''BSC'', address = ''0xB0'', price = Finite 1\<rparr>"

definition example_received :: "rat \<Rightarrow> price_token_amount" where
  "example_received n =
     \<lparr>blockchain = ''BSC'', address = ''0xB0'', price = Finite 1, tokenAmount = Finite n\<rparr>"

definition example_fee :: price_token where
  "example_fee = \<lparr>blockchain = ''ETH'', address = ''0x00'', price = Finite 1\<rparr>"

definition celerQuote :: wrapped_cross_chain_trade where
  "celerQuote =
     \<lparr>trade = Some (CelerCrossChainTrade example_from (example_received 4) example_fee),
      trade_error = None, tradeType = CELER\<rparr>"


definition lifiQuote :: wrapped_cross_chain_trade where
  "lifiQuote =
     \<lparr>trade = Some (LifiCrossChainTrade example_from (example_received 4)),
      trade_error = None, tradeType = LIFI\<rparr>"


definition example_manager :: cross_chain_manager where
  "example_manager =
     \<lparr>manager_providerAddress = ''0x00'',
      rubicCalculate = (\<lambda>f t opts. Inr None),
      celerCalculate = (\<lambda>f t opts. Inr (Some \<lparr>trade = trade celerQuote, trade_error = None\<rparr>)),
      symbiosisCalculate = (\<lambda>f t opts. Inl (HttpError ''Bad gateway'')),
      lifiCalculate = (\<lambda>f t opts. Inr (Some \<lparr>trade = trade lifiQuote, trade_error = None\<rparr>)),
      celerIsSupportedBlockchain = (\<lambda>b. b = ''ETH'' \<or> b = ''BSC''),
      pTimeout = (\<lambda>calculation ms. calculation),
      getPriceTokensFromInputTokens =
        (\<lambda>f amount t.
           Inr (\<lparr>blockchain = input_blockchain f, address = input_address f, price = Finite 2,
                  tokenAmount = Finite 10\<rparr>,
                \<lparr>blockchain = input_blockchain t, address = input_address t,
                  price = Finite 1\<rparr>)),
      implementation_defined_sort = array_sort\<rparr>"

definition failing_manager :: cross_chain_manager where
  "failing_manager =
     example_manager
       \<lparr>celerCalculate := (\<lambda>f t opts. Inr None),
        lifiCalculate := (\<lambda>f t opts. Inl TimeoutError)\<rparr>"

definition error_manager :: cross_chain_manager where
  "error_manager =
     example_manager
       \<lparr>lifiCalculate :=
          (\<lambda>f t opts. Inr (Some \<lparr>trade = None,
                                  trade_error = Some (RubicSdkError ''Min amount'')\<rparr>))\<rparr>"

definition no_options :: swap_manager_options where
  "no_options =
     \<lparr>opt_fromSlippageTolerance = None, opt_toSlippageTolerance = None, opt_gasCalculation = None,
      opt_slippageTolerance = None, opt_deadline = None, opt_disabledProviders = None,
      opt_timeout = None\<rparr>"

section \<open>Properties\<close>

subsection \<open>The sort\<close>

lemma mset_sift: "mset (sift c x es) = add_mset x (mset es)"
  by (induction es) auto

lemma set_sift: "set (sift c x es) = insert x (set es)"
  by (induction es) auto

lemma mset_fold_sift: "mset (fold (sift c) xs acc) = mset xs + mset acc"
  by (induction xs arbitrary: acc) (auto simp: mset_sift)

lemma mset_array_sort: "mset (array_sort c xs) = mset xs"
  by (simp add: array_sort_def mset_fold_sift)


lemma sift_sorted:
  assumes tot: "\<And>a b. a \<in> S \<Longrightarrow> b \<in> S \<Longrightarrow> 0 < c a b \<Longrightarrow> c b a \<le> 0"
      and tr: "\<And>a b d. a \<in> S \<Longrightarrow> b \<in> S \<Longrightarrow> d \<in> S \<Longrightarrow> c a b \<le> 0 \<Longrightarrow> c b d \<le> 0 \<Longrightarrow> c a d \<le> 0"
      and "x \<in> S" "set es \<subseteq> S"
      and "sorted_wrt (\<lambda>a b. c b a \<le> 0) es"
  shows "sorted_wrt (\<lambda>a b. c b a \<le> 0) (sift c x es)"
  using assms(3-)
proof (induction es)
  case Nil
  then show ?case by simp
next
  case (Cons e es)
  show ?case
  proof (cases "0 < c e x")
    case True
    have "sorted_wrt (\<lambda>a b. c b a \<le> 0) (sift c x es)"
      using Cons by simp
    moreover have "\<forall>y \<in> set (sift c x es). c y e \<le> 0"
    proof
      fix y assume "y \<in> set (sift c x es)"
      then have "y = x \<or> y \<in> set es"
        by (simp add: set_sift)
      then show "c y e \<le> 0"
        using True tot[of e x] Cons.prems by auto
    qed
    ultimately show ?thesis using True by simp
  next
    case False
    then have ex: "c e x \<le> 0" by simp
    have "\<forall>y \<in> set es. c y x \<le> 0"
    proof
      fix y assume y: "y \<in> set es"
      then have "c y e \<le> 0" using Cons.prems by simp
      then show "c y x \<le> 0"
        using tr[of y e x] ex y Cons.prems by auto
    qed
    then show ?thesis using False ex Cons.prems by simp
  qed
qed

lemma fold_sift_sorted:
  assumes tot: "\<And>a b. a \<in> S \<Longrightarrow> b \<in> S \<Longrightarrow> 0 < c a b \<Longrightarrow> c b a \<le> 0"
      and tr: "\<And>a b d. a \<in> S \<Longrightarrow> b \<in> S \<Longrightarrow> d \<in> S \<Longrightarrow> c a b \<le> 0 \<Longrightarrow> c b d \<le> 0 \<Longrightarrow> c a d \<le> 0"
      and "set xs \<subseteq> S" "set acc \<subseteq> S"
      and "sorted_wrt (\<lambda>a b. c b a \<le> 0) acc"
  shows "sorted_wrt (\<lambda>a b. c b a \<le> 0) (fold (sift c) xs acc)"
  using assms(3-)
proof (induction xs arbitrary: acc)
  case Nil
  then show ?case by simp
next
  case (Cons x xs)
  have xS: "x \<in> S" and xsS: "set xs \<subseteq> S" using Cons.prems(1) by simp_all
  have s: "sorted_wrt (\<lambda>a b. c b a \<le> 0) (sift c x acc)"
    by (rule sift_sorted[of S c x acc, OF tot tr xS Cons.prems(2) Cons.prems(3)])
  have "set (sift c x acc) \<subseteq> S"
    using xS Cons.prems(2) by (simp add: set_sift)
  then have "sorted_wrt (\<lambda>a b. c b a \<le> 0) (fold (sift c) xs (sift c x acc))"
    using Cons.IH[of "sift c x acc"] s xsS by blast
  then show ?case by simp
qed

lemma array_sort_sorted:
  assumes tot: "\<And>a b. a \<in> set xs \<Longrightarrow> b \<in> set xs \<Longrightarrow> 0 < c a b \<Longrightarrow> c b a \<le> 0"
      and tr: "\<And>a b d. a \<in> set xs \<Longrightarrow> b \<in> set xs \<Longrightarrow> d \<in> set xs \<Longrightarrow> c a b \<le> 0 \<Longrightarrow> c b d \<le> 0 \<Longrightarrow> c a d \<le> 0"
  shows "sorted_wrt (\<lambda>a b. c a b \<le> 0) (array_sort c xs)"
proof -
  have "sorted_wrt (\<lambda>a b. c b a \<le> 0) (fold (sift c) xs [])"
    by (rule fold_sift_sorted[of "set xs" c xs "[]", OF tot tr]) simp_all
  then show ?thesis
    by (simp add: array_sort_def sorted_wrt_rev)
qed

text \<open>
  With a comparator that subtracts integer keys, the model is the stable sort by key.
\<close>

lemma filter_sift_key:
  fixes f :: "'a \<Rightarrow> int"
  shows "filter (\<lambda>y. f k = f y) (sift (\<lambda>a b. f a - f b) x es)
           = (if f k = f x then [x] else []) @ filter (\<lambda>y. f k = f y) es"
  by (induction es) auto

lemma filter_fold_sift_key:
  fixes f :: "'a \<Rightarrow> int"
  shows "filter (\<lambda>y. f k = f y) (fold (sift (\<lambda>a b. f a - f b)) xs acc)
           = rev (filter (\<lambda>y. f k = f y) xs) @ filter (\<lambda>y. f k = f y) acc"
  by (induction xs arbitrary: acc) (simp_all add: filter_sift_key)

lemma array_sort_key_sorted:
  fixes f :: "'a \<Rightarrow> int"
  shows "sorted (map f (array_sort (\<lambda>a b. f a - f b) xs))"
proof -
  have "sorted_wrt (\<lambda>a b. f a - f b \<le> 0) (array_sort (\<lambda>a b. f a - f b) xs)"
    by (rule array_sort_sorted) auto
  then show ?thesis by (simp add: sorted_map)
qed

lemma array_sort_is_sort_key:
  fixes f :: "'a \<Rightarrow> int"
  shows "array_sort (\<lambda>a b. f a - f b) xs = sort_key f xs"
proof (rule properties_for_sort_key[symmetric])
  show "mset (array_sort (\<lambda>a b. f a - f b) xs) = mset xs"
    by (rule mset_array_sort)
  show "sorted (map f (array_sort (\<lambda>a b. f a - f b) xs))"
    by (rule array_sort_key_sorted)
  fix k
  show "filter (\<lambda>x. f k = f x) (array_sort (\<lambda>a b. f a - f b) xs) = filter (\<lambda>x. f k = f x) xs"
    by (simp add: array_sort_def rev_filter[symmetric] filter_fold_sift_key)
qed

text \<open>
  For a consistent comparator the result is in ascending order of the comparator; for
  any other the engine decides.
\<close>

lemma consistent_comparator_total:
  assumes "consistent_comparator c xs" "a \<in> set xs" "b \<in> set xs" "0 < c a b"
  shows "c b a < 0"
proof (rule ccontr)
  assume "\<not> c b a < 0"
  then consider "c b a = 0" | "0 < c b a" by linarith
  then show False
  proof cases
    case 1
    then have "c a b = 0" using assms(1-3) unfolding consistent_comparator_def by blast
    then show False using assms(4) by simp
  next
    case 2
    then have "0 < c a a" using assms unfolding consistent_comparator_def by blast
    moreover have "c a a = 0" using assms(1,2) unfolding consistent_comparator_def by blast
    ultimately show False by simp
  qed
qed

lemma consistent_comparator_trans:
  assumes cc: "consistent_comparator c xs"
      and in_xs: "a \<in> set xs" "b \<in> set xs" "d \<in> set xs"
      and ab: "c a b \<le> 0" and bd: "c b d \<le> 0"
  shows "c a d \<le> 0"
proof (rule ccontr)
  assume "\<not> c a d \<le> 0"
  then have ad: "0 < c a d" by simp
  then have da: "c d a < 0" using consistent_comparator_total[OF cc in_xs(1,3)] by simp
  have eq_trans: "\<And>x y z. x \<in> set xs \<Longrightarrow> y \<in> set xs \<Longrightarrow> z \<in> set xs
                    \<Longrightarrow> c x y = 0 \<Longrightarrow> c y z = 0 \<Longrightarrow> c x z = 0"
    using cc unfolding consistent_comparator_def by blast
  have lt_trans: "\<And>x y z. x \<in> set xs \<Longrightarrow> y \<in> set xs \<Longrightarrow> z \<in> set xs
                    \<Longrightarrow> c x y < 0 \<Longrightarrow> c y z < 0 \<Longrightarrow> c x z < 0"
    using cc unfolding consistent_comparator_def by blast
  have sym: "\<And>x y. x \<in> set xs \<Longrightarrow> y \<in> set xs \<Longrightarrow> c x y = 0 \<Longrightarrow> c y x = 0"
    using cc unfolding consistent_comparator_def by blast
  have refl: "\<And>x. x \<in> set xs \<Longrightarrow> c x x = 0"
    using cc unfolding consistent_comparator_def by blast
  consider "c a b < 0" "c b d < 0" | "c a b < 0" "c b d = 0" | "c a b = 0" "c b d < 0"
    | "c a b = 0" "c b d = 0"
    using ab bd by linarith
  then show False
  proof cases
    case 1
    then have "c a d < 0" using lt_trans in_xs by blast
    then show ?thesis using ad by simp
  next
    case 2
    have "c d b = 0" using sym in_xs 2(2) by blast
    have "c d b < 0" using lt_trans[OF in_xs(3,1,2) da 2(1)] .
    then show ?thesis using \<open>c d b = 0\<close> by simp
  next
    case 3
    have "c b a < 0" using lt_trans[OF in_xs(2,3,1) 3(2) da] .
    moreover have "c b a = 0" using sym in_xs 3(1) by blast
    ultimately show ?thesis by simp
  next
    case 4
    then have "c a d = 0" using eq_trans in_xs by blast
    then show ?thesis using ad by simp
  qed
qed

lemma array_sort_consistent_sorted:
  assumes "consistent_comparator c xs"
  shows "sorted_wrt (\<lambda>a b. c a b \<le> 0) (array_sort c xs)"
proof (rule array_sort_sorted)
  fix a b assume "a \<in> set xs" "b \<in> set xs" "0 < c a b"
  then show "c b a \<le> 0"
    using consistent_comparator_total[OF assms] by fastforce
next
  fix a b d assume "a \<in> set xs" "b \<in> set xs" "d \<in> set xs" "c a b \<le> 0" "c b d \<le> 0"
  then show "c a d \<le> 0"
    by (rule consistent_comparator_trans[OF assms])
qed

lemma Array_prototype_sort_consistent:
  "consistent_comparator c xs \<Longrightarrow> Array_prototype_sort engine c xs = array_sort c xs"
  by (simp add: Array_prototype_sort_def)

lemma Array_prototype_sort_inconsistent:
  "\<not> consistent_comparator c xs \<Longrightarrow> Array_prototype_sort engine c xs = engine c xs"
  by (simp add: Array_prototype_sort_def)

lemma Array_prototype_sort_mset:
  "\<forall>comparefn ys. mset (engine comparefn ys) = mset ys
     \<Longrightarrow> mset (Array_prototype_sort engine c xs) = mset xs"
  by (simp add: Array_prototype_sort_def mset_array_sort)

subsection \<open>rpcBatchRequest\<close>










lemma rpcBatchRequest_transport_failure:
  "post host (rpc_batch seed calls) = Inl e \<Longrightarrow> rpcBatchRequest seed post host calls = Inl e"
  by (simp add: rpcBatchRequest_def)

lemma batchEstimatedGas_try_transport_failure:
  assumes "\<forall>batch. post host batch = Inl e"
  shows "\<exists>e'. batchEstimatedGas_try encodeABI toBigNumber seed post host ca fa callsData = Inl e'"
  using assms
  by (simp add: batchEstimatedGas_try_def rpcBatchRequest_def split: sum.splits)

text \<open>
  Claim C4, as the code has it. When the network request of a batch fails,
  \<open>rpcBatchRequest\<close> rejects with that error: the whole batch fails for its caller.
  \<open>batchEstimatedGas\<close> runs the same request inside \<open>try\<close>; its \<open>catch\<close> handler logs the error
  and resolves to one \<open>null\<close> per call, so there the transport failure does become an
  all-null result.
\<close>

theorem C4_transport_failure:
  "(post host (rpc_batch seed calls) = Inl e
      \<longrightarrow> rpcBatchRequest seed post host calls = Inl e)
   \<and> ((\<forall>batch. post' host batch = Inl e)
      \<longrightarrow> batchEstimatedGas encodeABI toBigNumber seed post' host contractAddress fromAddress
            callsData = Inr (map (\<lambda>_. None) callsData))"
proof (intro conjI impI)
  assume "post host (rpc_batch seed calls) = Inl e"
  then show "rpcBatchRequest seed post host calls = Inl e"
    by (rule rpcBatchRequest_transport_failure)
next
  assume "\<forall>batch. post' host batch = Inl e"
  then obtain e' where
    "batchEstimatedGas_try encodeABI toBigNumber seed post' host contractAddress fromAddress
       callsData = Inl e'"
    using batchEstimatedGas_try_transport_failure by blast
  then show "batchEstimatedGas encodeABI toBigNumber seed post' host contractAddress fromAddress
               callsData = Inr (map (\<lambda>_. None) callsData)"
    by (simp add: batchEstimatedGas_def)
qed

theorem C4_transport_failure_witness:
  "rpcBatchRequest 1000 (\<lambda>host batch. Inl (HttpError ''Network Error'')) ''https://rpc.example''
     [\<lparr>rpcMethod = ''eth_call'', params = ''a''\<rparr>]
     = (Inl (HttpError ''Network Error'') :: exn + string option list)
   \<and> batchEstimatedGas (\<lambda>name args. Inr ''0xa9059cbb'') (\<lambda>s. Finite 21000) 1000
       (\<lambda>host batch. Inl (HttpError ''Network Error'')) ''https://rpc.example'' ''0xC0'' ''0xF0''
       [\<lparr>contractMethod = ''transfer'', call_params = [], call_value = None\<rparr>]
     = Inr [None]"
  using C4_transport_failure
          [of "\<lambda>host batch. Inl (HttpError ''Network Error'')" "''https://rpc.example''" 1000
              "[\<lparr>rpcMethod = ''eth_call'', params = ''a''\<rparr>]" "HttpError ''Network Error''"
              "\<lambda>host batch. Inl (HttpError ''Network Error'')"
              "\<lambda>name args. Inr ''0xa9059cbb''" "\<lambda>s. Finite 21000" "''0xC0''" "''0xF0''"
              "[\<lparr>contractMethod = ''transfer'', call_params = [], call_value = None\<rparr>]"]
  by simp

text \<open>
  The claim as stated fails for \<open>batchEstimatedGas\<close>: with a transport that rejects, a batch
  of two calls resolves to \<open>[null, null]\<close> and no error reaches the caller.
\<close>

theorem C4_batchEstimatedGas_counterexample:
  "batchEstimatedGas (\<lambda>name args. Inr ''0xa9059cbb'') (\<lambda>s. Finite 21000) 1000
     (\<lambda>host batch. Inl (HttpError ''Network Error'')) ''https://rpc.example'' ''0xC0'' ''0xF0''
     [\<lparr>contractMethod = ''transfer'', call_params = [''0x01'', ''5''], call_value = None\<rparr>,
      \<lparr>contractMethod = ''approve'', call_params = [''0x02'', ''7''], call_value = None\<rparr>]
   = Inr [None, None]"
  by (simp add: batchEstimatedGas_def batchEstimatedGas_try_def rpcBatchRequest_def)

subsection \<open>multicallContractMethod\<close>



lemma list3_nth_eq:
  "length xs = Suc (Suc (Suc 0)) \<Longrightarrow> xs ! 0 = a \<Longrightarrow> xs ! Suc 0 = b \<Longrightarrow> xs ! Suc (Suc 0) = c
     \<Longrightarrow> xs = [a, b, c]"
  by (cases xs; cases "tl xs"; cases "tl (tl xs)") auto




subsection \<open>getTokensBalances\<close>

lemma findIndex_none: "\<forall>x \<in> set xs. \<not> P x \<Longrightarrow> findIndex P xs = - 1"
  by (induction xs) (auto simp: Let_def)

lemma findIndex_first:
  "i < length xs \<Longrightarrow> P (xs ! i) \<Longrightarrow> \<forall>j < i. \<not> P (xs ! j) \<Longrightarrow> findIndex P xs = int i"
proof (induction xs arbitrary: i)
  case Nil
  then show ?case by simp
next
  case (Cons x xs)
  show ?case
  proof (cases i)
    case 0
    then show ?thesis using Cons.prems by simp
  next
    case (Suc k)
    have nx: "\<not> P x" using Cons.prems(3) Suc by auto
    have "\<forall>j < k. \<not> P (xs ! j)"
      using Cons.prems(3) Suc by auto
    then have "findIndex P xs = int k"
      using Cons.IH[of k] Cons.prems Suc by simp
    then show ?thesis using nx Suc by (simp add: Let_def)
  qed
qed

lemma first_index_exists:
  "\<exists>x \<in> set xs. P x \<Longrightarrow> \<exists>i < length xs. P (xs ! i) \<and> (\<forall>j < i. \<not> P (xs ! j))"
proof (induction xs)
  case Nil
  then show ?case by simp
next
  case (Cons x xs)
  show ?case
  proof (cases "P x")
    case True
    then have "0 < length (x # xs) \<and> P ((x # xs) ! 0) \<and> (\<forall>j < 0. \<not> P ((x # xs) ! j))" by simp
    then show ?thesis by blast
  next
    case False
    then obtain i where i: "i < length xs" "P (xs ! i)" "\<forall>j < i. \<not> P (xs ! j)"
      using Cons by auto
    have "\<forall>j < Suc i. \<not> P ((x # xs) ! j)"
      using False i(3) by (auto simp: nth_Cons')
    then have "Suc i < length (x # xs) \<and> P ((x # xs) ! Suc i) \<and> (\<forall>j < Suc i. \<not> P ((x # xs) ! j))"
      using i by simp
    then show ?thesis by blast
  qed
qed

lemma getTokensBalances_array_native:
  assumes "i < length tokensAddresses" "isNativeAddress (tokensAddresses ! i)"
          "\<forall>j < i. \<not> isNativeAddress (tokensAddresses ! j)"
  shows "fst (getTokensBalances isNativeAddress balanceOfData tryAggregate eth_getBalance
                toBigNumber second_first wallet tokensAddresses)
           = take i tokensAddresses @ drop (Suc i) tokensAddresses"
proof -
  have "findIndex isNativeAddress tokensAddresses = int i"
    using assms by (rule findIndex_first)
  then show ?thesis
    by (simp add: getTokensBalances_def splice_def Let_def)
qed

lemma getTokensBalances_array_no_native:
  assumes "\<forall>a \<in> set tokensAddresses. \<not> isNativeAddress a"
  shows "fst (getTokensBalances isNativeAddress balanceOfData tryAggregate eth_getBalance
                toBigNumber second_first wallet tokensAddresses) = tokensAddresses"
proof -
  have "findIndex isNativeAddress tokensAddresses = - 1"
    using assms by (rule findIndex_none)
  then show ?thesis
    by (simp add: getTokensBalances_def Let_def)
qed

text \<open>
  Claim C6. Let \<open>i\<close> be the index of the (first) native-coin address of the input. The
  multicall is built from the other addresses, in order; let it return one response per
  call, and let the independent balance query return \<open>b\<close>. Then, whichever of the two
  settles first, the result has the length of the input, holds \<open>b\<close> at index \<open>i\<close>, and
  holds at every other index \<open>j\<close> the balance read from the response to the call whose
  target is address \<open>j\<close> of the input.
\<close>

theorem C6_native_balance_respliced:
  assumes i: "i < length tokensAddresses" "isNativeAddress (tokensAddresses ! i)"
             "\<forall>j < i. \<not> isNativeAddress (tokensAddresses ! j)"
      and agg: "tryAggregate
                  (map (\<lambda>tokenAddress. \<lparr>target = tokenAddress, callData = balanceOfData wallet\<rparr>)
                     (take i tokensAddresses @ drop (Suc i) tokensAddresses)) = Inr results0"
      and len: "length results0 = length (take i tokensAddresses @ drop (Suc i) tokensAddresses)"
      and bal: "eth_getBalance wallet = Inr b"
  shows "\<exists>balances.
           snd (getTokensBalances isNativeAddress balanceOfData tryAggregate eth_getBalance
                  toBigNumber second_first wallet tokensAddresses) = Inr balances
         \<and> length balances = length tokensAddresses
         \<and> balances ! i = toBigNumber b
         \<and> (\<forall>j < i.
              (take i tokensAddresses @ drop (Suc i) tokensAddresses) ! j = tokensAddresses ! j
              \<and> balances ! j
                  = (if success (results0 ! j) then toBigNumber (returnData (results0 ! j))
                     else Finite 0))
         \<and> (\<forall>j. i < j \<and> j < length tokensAddresses \<longrightarrow>
              (take i tokensAddresses @ drop (Suc i) tokensAddresses) ! (j - 1) = tokensAddresses ! j
              \<and> balances ! j
                  = (if success (results0 ! (j - 1))
                     then toBigNumber (returnData (results0 ! (j - 1)))
                     else Finite 0))"
proof -
  let ?bal = "\<lambda>r. if success r then toBigNumber (returnData r) else Finite 0"
  let ?bs = "take i (map ?bal results0) @ [toBigNumber b] @ drop i (map ?bal results0)"
  have fi: "findIndex isNativeAddress tokensAddresses = int i"
    using i by (rule findIndex_first)
  have l0: "length results0 = length tokensAddresses - 1"
    using len i(1) by simp
  have r: "snd (getTokensBalances isNativeAddress balanceOfData tryAggregate eth_getBalance
                  toBigNumber second_first wallet tokensAddresses) = Inr ?bs"
    using fi agg bal by (simp add: getTokensBalances_def splice_def promise_all2_def Let_def)
  have il: "i \<le> length results0" using l0 i(1) by simp
  have a: "length ?bs = length tokensAddresses"
    using l0 i(1) il by simp
  have b: "?bs ! i = toBigNumber b"
    using il by (simp add: nth_append)
  have c: "\<forall>j < i. (take i tokensAddresses @ drop (Suc i) tokensAddresses) ! j = tokensAddresses ! j
             \<and> ?bs ! j = ?bal (results0 ! j)"
    using il i(1) by (simp add: nth_append)
  have d: "\<forall>j. i < j \<and> j < length tokensAddresses \<longrightarrow>
             (take i tokensAddresses @ drop (Suc i) tokensAddresses) ! (j - 1) = tokensAddresses ! j
             \<and> ?bs ! j = ?bal (results0 ! (j - 1))"
  proof (intro allI impI)
    fix j assume j: "i < j \<and> j < length tokensAddresses"
    then have e1: "j - 1 - i + Suc i = j" and e2: "i + (j - Suc i) = j - 1" by simp_all
    have nl: "\<not> j - 1 < i" "\<not> j - Suc 0 < i" "\<not> j < i" using j by linarith+
    have "(take i tokensAddresses @ drop (Suc i) tokensAddresses) ! (j - 1)
            = drop (Suc i) tokensAddresses ! (j - 1 - i)"
      using j i(1) nl by (simp add: nth_append)
    also have "\<dots> = tokensAddresses ! j"
      using j e1 by (simp add: add.commute)
    finally have x: "(take i tokensAddresses @ drop (Suc i) tokensAddresses) ! (j - 1)
                       = tokensAddresses ! j" .
    have "?bs ! j = ([toBigNumber b] @ drop i (map ?bal results0)) ! (j - i)"
      using j il nl by (simp add: nth_append)
    also have "\<dots> = drop i (map ?bal results0) ! (j - Suc i)"
      using j by (simp add: nth_Cons')
    also have "\<dots> = map ?bal results0 ! (j - 1)"
      using j il l0 e2 by simp
    also have "\<dots> = ?bal (results0 ! (j - 1))"
    proof -
      have "j - 1 < length results0" using j l0 by linarith
      then show ?thesis by (rule nth_map)
    qed
    finally show "(take i tokensAddresses @ drop (Suc i) tokensAddresses) ! (j - 1) = tokensAddresses ! j
             \<and> ?bs ! j = ?bal (results0 ! (j - 1))"
      using x by simp
  qed
  show ?thesis
    using r a b c d by blast
qed

theorem C6_native_balance_respliced_witness:
  "snd (getTokensBalances (\<lambda>a. a = ''0xEeeee'') (\<lambda>a. ''0x70a08231'')
          (\<lambda>calls. Inr [\<lparr>success = True, returnData = ''0x0a''\<rparr>,
                          \<lparr>success = False, returnData = ''0x''\<rparr>])
          (\<lambda>a. Inr ''0x07'')
          (\<lambda>s. if s = ''0x0a'' then Finite 10 else if s = ''0x07'' then Finite 7 else NaN)
          True ''0xF0'' [''0xA0'', ''0xEeeee'', ''0xB0''])
     = Inr [Finite 10, Finite 7, Finite 0]"
proof -
  let ?ts = "[''0xA0'', ''0xEeeee'', ''0xB0'']"
  let ?rs = "[\<lparr>success = True, returnData = ''0x0a''\<rparr>, \<lparr>success = False, returnData = ''0x''\<rparr>]"
  define isNativeAddress where "isNativeAddress = (\<lambda>a :: string. a = ''0xEeeee'')"
  define balanceOfData where "balanceOfData = (\<lambda>a :: string. ''0x70a08231'')"
  define tryAggregate where
    "tryAggregate = (\<lambda>calls :: call list. (Inr ?rs :: exn + multicall_response list))"
  define eth_getBalance where "eth_getBalance = (\<lambda>a :: string. (Inr ''0x07'' :: exn + string))"
  define toBigNumber where
    "toBigNumber = (\<lambda>s :: string.
                      if s = ''0x0a'' then Finite 10 else if s = ''0x07'' then Finite 7 else NaN)"
  have h1: "Suc 0 < length ?ts" by simp
  have h2: "isNativeAddress (?ts ! Suc 0)" by (simp add: isNativeAddress_def)
  have h3: "\<forall>j < Suc 0. \<not> isNativeAddress (?ts ! j)" by (simp add: isNativeAddress_def)
  have h4: "tryAggregate
              (map (\<lambda>tokenAddress. \<lparr>target = tokenAddress, callData = balanceOfData ''0xF0''\<rparr>)
                 (take (Suc 0) ?ts @ drop (Suc (Suc 0)) ?ts)) = Inr ?rs"
    by (simp add: tryAggregate_def)
  have h5: "length ?rs = length (take (Suc 0) ?ts @ drop (Suc (Suc 0)) ?ts)" by simp
  have h6: "eth_getBalance ''0xF0'' = Inr ''0x07''" by (simp add: eth_getBalance_def)
  obtain balances where bs:
    "snd (getTokensBalances isNativeAddress balanceOfData tryAggregate eth_getBalance toBigNumber
            True ''0xF0'' ?ts) = Inr balances"
    "length balances = length ?ts"
    "balances ! Suc 0 = toBigNumber ''0x07''"
    "\<forall>j < Suc 0. balances ! j
        = (if success (?rs ! j) then toBigNumber (returnData (?rs ! j)) else Finite 0)"
    "\<forall>j. Suc 0 < j \<and> j < length ?ts \<longrightarrow> balances ! j
        = (if success (?rs ! (j - 1)) then toBigNumber (returnData (?rs ! (j - 1))) else Finite 0)"
    using C6_native_balance_respliced
            [where second_first = True and toBigNumber = toBigNumber
                and isNativeAddress = isNativeAddress and balanceOfData = balanceOfData
                and tryAggregate = tryAggregate and eth_getBalance = eth_getBalance
                and wallet = "''0xF0''" and i = "Suc 0" and tokensAddresses = ?ts,
              OF h1 h2 h3 h4 h5 h6]
    by blast
  have "balances ! 0 = Finite 10"
    using bs(4) by (simp add: toBigNumber_def)
  moreover have "balances ! Suc 0 = Finite 7"
    using bs(3) by (simp add: toBigNumber_def)
  moreover have "balances ! Suc (Suc 0) = Finite 0"
    using bs(5) by simp
  ultimately have "balances = [Finite 10, Finite 7, Finite 0]"
    using bs(2) by (simp add: list3_nth_eq)
  then show ?thesis
    using bs(1)
    unfolding isNativeAddress_def balanceOfData_def tryAggregate_def eth_getBalance_def
      toBigNumber_def
    by simp
qed

text \<open>
  Claim C10. If the caller's array contains a native-coin address, then after the call
  the array lacks the entry at the first such index (so it is no longer the array that
  was passed); if it contains none, the array is as it was. This holds whatever the
  multicall and the balance query return.
\<close>

theorem C10_caller_array:
  "((\<exists>a \<in> set tokensAddresses. isNativeAddress a)
      \<longrightarrow> (\<exists>i < length tokensAddresses.
             isNativeAddress (tokensAddresses ! i)
             \<and> (\<forall>j < i. \<not> isNativeAddress (tokensAddresses ! j))
             \<and> fst (getTokensBalances isNativeAddress balanceOfData tryAggregate eth_getBalance
                      toBigNumber second_first wallet tokensAddresses)
                 = take i tokensAddresses @ drop (Suc i) tokensAddresses)
          \<and> fst (getTokensBalances isNativeAddress balanceOfData tryAggregate eth_getBalance
                   toBigNumber second_first wallet tokensAddresses) \<noteq> tokensAddresses)
   \<and> ((\<forall>a \<in> set tokensAddresses. \<not> isNativeAddress a)
      \<longrightarrow> fst (getTokensBalances isNativeAddress balanceOfData tryAggregate eth_getBalance
                 toBigNumber second_first wallet tokensAddresses) = tokensAddresses)"
proof (intro conjI impI)
  assume "\<exists>a \<in> set tokensAddresses. isNativeAddress a"
  then obtain i where i: "i < length tokensAddresses" "isNativeAddress (tokensAddresses ! i)"
      "\<forall>j < i. \<not> isNativeAddress (tokensAddresses ! j)"
    using first_index_exists[of tokensAddresses isNativeAddress] by blast
  have eq: "fst (getTokensBalances isNativeAddress balanceOfData tryAggregate eth_getBalance
                  toBigNumber second_first wallet tokensAddresses)
              = take i tokensAddresses @ drop (Suc i) tokensAddresses"
    using i by (rule getTokensBalances_array_native)
  show "\<exists>i < length tokensAddresses.
          isNativeAddress (tokensAddresses ! i)
          \<and> (\<forall>j < i. \<not> isNativeAddress (tokensAddresses ! j))
          \<and> fst (getTokensBalances isNativeAddress balanceOfData tryAggregate eth_getBalance
                   toBigNumber second_first wallet tokensAddresses)
              = take i tokensAddresses @ drop (Suc i) tokensAddresses"
    using i eq by blast
  have "length (take i tokensAddresses @ drop (Suc i) tokensAddresses) < length tokensAddresses"
    using i(1) by simp
  then show "fst (getTokensBalances isNativeAddress balanceOfData tryAggregate eth_getBalance
                   toBigNumber second_first wallet tokensAddresses) \<noteq> tokensAddresses"
    using eq by (metis less_irrefl)
next
  assume "\<forall>a \<in> set tokensAddresses. \<not> isNativeAddress a"
  then show "fst (getTokensBalances isNativeAddress balanceOfData tryAggregate eth_getBalance
                   toBigNumber second_first wallet tokensAddresses) = tokensAddresses"
    by (rule getTokensBalances_array_no_native)
qed

theorem C10_caller_array_witness:
  "fst (getTokensBalances (\<lambda>a. a = ''0xEeeee'') (\<lambda>a. ''0x70a08231'')
          (\<lambda>calls. Inl (Web3Error ''call failed'')) (\<lambda>a. Inr ''7'') (\<lambda>s. Finite 7) False
          ''0xF0'' [''0xA0'', ''0xEeeee'', ''0xB0''])
     = [''0xA0'', ''0xB0'']
   \<and> fst (getTokensBalances (\<lambda>a. a = ''0xEeeee'') (\<lambda>a. ''0x70a08231'')
          (\<lambda>calls. Inl (Web3Error ''call failed'')) (\<lambda>a. Inr ''7'') (\<lambda>s. Finite 7) False
          ''0xF0'' [''0xA0'', ''0xB0''])
     = [''0xA0'', ''0xB0'']"
proof -
  let ?G = "getTokensBalances (\<lambda>a. a = ''0xEeeee'') (\<lambda>a. ''0x70a08231'')
          (\<lambda>calls. Inl (Web3Error ''call failed'')) (\<lambda>a. Inr ''7'') (\<lambda>s. Finite 7) False ''0xF0''"
  let ?ts = "[''0xA0'', ''0xEeeee'', ''0xB0'']"
  have "\<exists>a \<in> set ?ts. a = ''0xEeeee''" by simp
  then obtain i where i: "i < length ?ts" "?ts ! i = ''0xEeeee''"
      "fst (?G ?ts) = take i ?ts @ drop (Suc i) ?ts"
    using C10_caller_array
            [of ?ts "\<lambda>a. a = ''0xEeeee''" "\<lambda>a. ''0x70a08231''"
                "\<lambda>calls. Inl (Web3Error ''call failed'')" "\<lambda>a. Inr ''7''" "\<lambda>s. Finite 7" False
                "''0xF0''"]
    by blast
  have "i = 1"
    using i(1,2) by (cases i; cases "i - 1"; cases "i - 2") auto
  then have a: "fst (?G ?ts) = [''0xA0'', ''0xB0'']"
    using i(3) by simp
  have "\<forall>a \<in> set [''0xA0'', ''0xB0'']. \<not> a = ''0xEeeee''" by simp
  then have b: "fst (?G [''0xA0'', ''0xB0'']) = [''0xA0'', ''0xB0'']"
    using C10_caller_array
            [of "[''0xA0'', ''0xB0'']" "\<lambda>a. a = ''0xEeeee''" "\<lambda>a. ''0x70a08231''"
                "\<lambda>calls. Inl (Web3Error ''call failed'')" "\<lambda>a. Inr ''7''" "\<lambda>s. Finite 7" False
                "''0xF0''"]
    by blast
  show ?thesis using a b by simp
qed

subsection \<open>Provider selection and aggregation\<close>

lemma tradeProviders_entries:
  "tradeProviders m =
     [(RUBIC, \<lparr>provider_type = RUBIC, calculate = rubicCalculate m\<rparr>),
      (CELER, \<lparr>provider_type = CELER, calculate = celerCalculate m\<rparr>),
      (SYMBIOSIS, \<lparr>provider_type = SYMBIOSIS, calculate = symbiosisCalculate m\<rparr>),
      (LIFI, \<lparr>provider_type = LIFI, calculate = lifiCalculate m\<rparr>)]"
  by (simp add: tradeProviders_def)

lemma provider_enabled_iff:
  "provider_enabled m disabled fb tb entry \<longleftrightarrow>
     fst entry \<notin> set disabled
     \<and> \<not> (fst entry = RUBIC \<and> celerIsSupportedBlockchain m fb \<and> celerIsSupportedBlockchain m tb)"
  by (simp add: provider_enabled_def)

lemma map_fst_filter_entries:
  assumes "\<And>e. e \<in> set es \<Longrightarrow> P e = Q (fst e)"
  shows "map fst (filter P es) = filter Q (map fst es)"
  using assms by (induction es) auto

lemma selected_types:
  "map fst (filter (provider_enabled m disabled fb tb) (tradeProviders m))
     = filter (\<lambda>t. t \<notin> set disabled
                  \<and> \<not> (t = RUBIC \<and> celerIsSupportedBlockchain m fb \<and> celerIsSupportedBlockchain m tb))
         [RUBIC, CELER, SYMBIOSIS, LIFI]"
proof -
  have "map fst (tradeProviders m) = [RUBIC, CELER, SYMBIOSIS, LIFI]"
    by (simp add: tradeProviders_entries)
  then show ?thesis
    using map_fst_filter_entries
            [of "tradeProviders m" "provider_enabled m disabled fb tb"
                "\<lambda>t. t \<notin> set disabled
                   \<and> \<not> (t = RUBIC \<and> celerIsSupportedBlockchain m fb \<and> celerIsSupportedBlockchain m tb)"]
    by (simp add: provider_enabled_iff)
qed

lemma calculateTradeFromTokens_events:
  "fst (calculateTradeFromTokens m from_token to_token options)
     = map (\<lambda>entry. ProviderCalculate (fst entry))
         (filter (provider_enabled m (disabledProviders options)
                    (blockchain from_token) (blockchain to_token)) (tradeProviders m))"
  by (simp add: calculateTradeFromTokens_def Let_def)

lemma calculateTradeFromTokens_result:
  "snd (calculateTradeFromTokens m from_token to_token options)
     = (let providers = filter (provider_enabled m (disabledProviders options)
                                  (blockchain from_token) (blockchain to_token)) (tradeProviders m);
            results = List.map_filter
                        (calculationPromise m from_token to_token (providersOptions_of options)
                           (timeout options)) providers
        in if providers = [] then Inl (RubicSdkError ''There are no providers for trade'')
           else if results = []
           then Inl (RubicSdkError ''No success providers calculation for the trade'')
           else Inr results)"
  by (simp add: calculateTradeFromTokens_def Let_def)

lemma map_filter_empty_iff: "List.map_filter f xs = [] \<longleftrightarrow> (\<forall>x \<in> set xs. f x = None)"
  by (induction xs) (auto simp: List.map_filter_simps split: option.splits)

lemma calculationPromise_None_iff:
  "calculationPromise m from_token to_token po tmo entry = None
     \<longleftrightarrow> (\<forall>w. pTimeout m (calculate (snd entry) from_token to_token po) tmo \<noteq> Inr (Some w))"
  by (auto simp: calculationPromise_def split: sum.splits option.splits)

lemma map_filter_concat:
  "List.map_filter f xs = concat (map (\<lambda>x. case f x of None \<Rightarrow> [] | Some y \<Rightarrow> [y]) xs)"
  by (induction xs) (auto simp: List.map_filter_simps split: option.splits)

lemma tradeProviders_map:
  "tradeProviders m =
     map (\<lambda>entry. (fst entry, \<lparr>provider_type = fst entry, calculate = snd entry\<rparr>))
       [(RUBIC, rubicCalculate m), (CELER, celerCalculate m),
        (SYMBIOSIS, symbiosisCalculate m), (LIFI, lifiCalculate m)]"
  by (simp add: tradeProviders_entries)

lemma selected_providers:
  "filter (provider_enabled m disabled fb tb) (tradeProviders m)
     = map (\<lambda>entry. (fst entry, \<lparr>provider_type = fst entry, calculate = snd entry\<rparr>))
         (filter (\<lambda>entry. fst entry \<notin> set disabled
                          \<and> \<not> (fst entry = RUBIC \<and> celerIsSupportedBlockchain m fb
                                                 \<and> celerIsSupportedBlockchain m tb))
            [(RUBIC, rubicCalculate m), (CELER, celerCalculate m),
             (SYMBIOSIS, symbiosisCalculate m), (LIFI, lifiCalculate m)])"
  unfolding tradeProviders_map filter_map
  by (simp add: comp_def provider_enabled_iff)

lemma collected_quotes:
  "List.map_filter (calculationPromise m from_token to_token po tmo)
     (map (\<lambda>entry. (fst entry, \<lparr>provider_type = fst entry, calculate = snd entry\<rparr>)) entries)
     = concat (map (\<lambda>entry.
                      case pTimeout m (snd entry from_token to_token po) tmo of
                        Inl e \<Rightarrow> []
                      | Inr None \<Rightarrow> []
                      | Inr (Some wrappedTrade) \<Rightarrow>
                          [\<lparr>trade = trade wrappedTrade, trade_error = trade_error wrappedTrade,
                            tradeType = fst entry\<rparr>])
                 entries)"
  by (induction entries)
     (auto simp: List.map_filter_simps calculationPromise_def split: sum.splits option.splits)

lemma sortTrades_mset:
  "\<forall>comparefn xs. mset (implementation_defined_sort m comparefn xs) = mset xs
     \<Longrightarrow> mset (sortTrades m ws) = mset ws"
  by (simp add: sortTrades_def Array_prototype_sort_mset split: option.splits)

lemma sortTrades_empty_iff:
  "\<forall>comparefn xs. mset (implementation_defined_sort m comparefn xs) = mset xs
     \<Longrightarrow> sortTrades m ws = [] \<longleftrightarrow> ws = []"
  by (metis sortTrades_mset mset_zero_iff)

lemma calculateBestTradeFromTokens_result:
  "snd (calculateBestTradeFromTokens m from_token to_token options)
     = (case snd (calculateTradeFromTokens m from_token to_token options) of
          Inl e \<Rightarrow> Inl e
        | Inr wrappedTrades \<Rightarrow> Inr (sortTrades m wrappedTrades))"
  by (cases "calculateTradeFromTokens m from_token to_token options")
     (simp add: calculateBestTradeFromTokens_def split: sum.splits)

lemma calculateBestTradeFromTokens_not_empty:
  "\<forall>comparefn xs. mset (implementation_defined_sort m comparefn xs) = mset xs
     \<Longrightarrow> snd (calculateBestTradeFromTokens m from_token to_token options) \<noteq> Inr []"
  by (auto simp: calculateBestTradeFromTokens_result calculateTradeFromTokens_result Let_def
        sortTrades_empty_iff split: sum.splits)

lemma calculateTrade_not_empty:
  assumes "\<forall>comparefn xs. mset (implementation_defined_sort m comparefn xs) = mset xs"
  shows "snd (calculateTrade m fromToken fromAmount toToken opts) \<noteq> Inr []"
proof -
  have "\<And>f t. snd (calculateBestTradeFromTokens m f t (getFullOptions m opts)) \<noteq> Inr []"
    using assms by (rule calculateBestTradeFromTokens_not_empty)
  then show ?thesis
    by (auto simp: calculateTrade_def split: sum.splits prod.splits) (metis snd_conv)+
qed

text \<open>
  Claim C7. The registry holds the four provider types. The providers on which
  \<open>calculate\<close> is invoked are exactly the registry's types, in registry order, that the
  caller has not disabled, without the default provider (Rubic) when the specialized one
  (Celer) supports both the source and the destination blockchain. If none remains, the
  calculation fails with the error \<open>There are no providers for trade\<close> and invokes no
  provider.
\<close>

theorem C7_provider_selection:
  "map fst (tradeProviders m) = [RUBIC, CELER, SYMBIOSIS, LIFI]
   \<and> fst (calculateTradeFromTokens m from_token to_token options)
       = map ProviderCalculate
           (filter (\<lambda>t. t \<notin> set (disabledProviders options)
                        \<and> \<not> (t = RUBIC \<and> celerIsSupportedBlockchain m (blockchain from_token)
                                       \<and> celerIsSupportedBlockchain m (blockchain to_token)))
              [RUBIC, CELER, SYMBIOSIS, LIFI])
   \<and> (filter (\<lambda>t. t \<notin> set (disabledProviders options)
                   \<and> \<not> (t = RUBIC \<and> celerIsSupportedBlockchain m (blockchain from_token)
                                  \<and> celerIsSupportedBlockchain m (blockchain to_token)))
         [RUBIC, CELER, SYMBIOSIS, LIFI] = []
       \<longrightarrow> calculateTradeFromTokens m from_token to_token options
             = ([], Inl (RubicSdkError ''There are no providers for trade'')))"
proof -
  let ?sel = "filter (provider_enabled m (disabledProviders options)
                        (blockchain from_token) (blockchain to_token)) (tradeProviders m)"
  let ?ts = "filter (\<lambda>t. t \<notin> set (disabledProviders options)
                        \<and> \<not> (t = RUBIC \<and> celerIsSupportedBlockchain m (blockchain from_token)
                                       \<and> celerIsSupportedBlockchain m (blockchain to_token)))
              [RUBIC, CELER, SYMBIOSIS, LIFI]"
  have s: "map fst ?sel = ?ts" by (rule selected_types)
  have a: "map fst (tradeProviders m) = [RUBIC, CELER, SYMBIOSIS, LIFI]"
    by (simp add: tradeProviders_entries)
  have "fst (calculateTradeFromTokens m from_token to_token options)
          = map ProviderCalculate (map fst ?sel)"
    by (simp add: calculateTradeFromTokens_events comp_def)
  then have b: "fst (calculateTradeFromTokens m from_token to_token options)
                  = map ProviderCalculate ?ts"
    by (simp only: s)
  have c: "?ts = [] \<longrightarrow> calculateTradeFromTokens m from_token to_token options
             = ([], Inl (RubicSdkError ''There are no providers for trade''))"
  proof
    assume "?ts = []"
    then have "map fst ?sel = []" by (simp only: s)
    then have "?sel = []" by simp
    then show "calculateTradeFromTokens m from_token to_token options
             = ([], Inl (RubicSdkError ''There are no providers for trade''))"
      by (simp add: calculateTradeFromTokens_def Let_def)
  qed
  show ?thesis using a b c by blast
qed

theorem C7_provider_selection_witness:
  "calculateTradeFromTokens example_manager example_from example_to
     (getFullOptions example_manager
        (no_options\<lparr>opt_disabledProviders := Some [RUBIC, CELER, SYMBIOSIS, LIFI]\<rparr>))
     = ([], Inl (RubicSdkError ''There are no providers for trade''))
   \<and> fst (calculateTradeFromTokens example_manager example_from example_to
            (getFullOptions example_manager (no_options\<lparr>opt_disabledProviders := Some [LIFI]\<rparr>)))
     = [ProviderCalculate CELER, ProviderCalculate SYMBIOSIS]"
proof -
  let ?all = "getFullOptions example_manager
                (no_options\<lparr>opt_disabledProviders := Some [RUBIC, CELER, SYMBIOSIS, LIFI]\<rparr>)"
  let ?one = "getFullOptions example_manager (no_options\<lparr>opt_disabledProviders := Some [LIFI]\<rparr>)"
  have h: "filter (\<lambda>t. t \<notin> set (disabledProviders ?all)
                      \<and> \<not> (t = RUBIC
                           \<and> celerIsSupportedBlockchain example_manager (blockchain example_from)
                           \<and> celerIsSupportedBlockchain example_manager (blockchain example_to)))
             [RUBIC, CELER, SYMBIOSIS, LIFI] = []"
    by (simp add: getFullOptions_def no_options_def)
  have a: "calculateTradeFromTokens example_manager example_from example_to ?all
             = ([], Inl (RubicSdkError ''There are no providers for trade''))"
    using C7_provider_selection[of example_manager example_from example_to ?all] h by blast
  have "fst (calculateTradeFromTokens example_manager example_from example_to ?one)
          = map ProviderCalculate
              (filter (\<lambda>t. t \<notin> set (disabledProviders ?one)
                          \<and> \<not> (t = RUBIC
                               \<and> celerIsSupportedBlockchain example_manager (blockchain example_from)
                               \<and> celerIsSupportedBlockchain example_manager (blockchain example_to)))
                 [RUBIC, CELER, SYMBIOSIS, LIFI])"
    using C7_provider_selection[of example_manager example_from example_to ?one] by blast
  then have b: "fst (calculateTradeFromTokens example_manager example_from example_to ?one)
                  = [ProviderCalculate CELER, ProviderCalculate SYMBIOSIS]"
    by (simp add: getFullOptions_def no_options_def example_manager_def example_from_def
          example_to_def)
  show ?thesis using a b by simp
qed

text \<open>
  Claim C2, as the code has it. \<open>selected\<close> are the registry entries that the filter
  leaves, and \<open>quotes\<close> are, in registry order, the objects to which the calculations of the
  selected providers, raced against the timeout, resolve; a calculation that is rejected,
  times out or resolves to \<open>null\<close> contributes nothing, and an object that holds an error
  and no trade is a quote like any other. The engine's sort returning a permutation of
  its input, no calculation resolves to an empty list, neither
  \<open>calculateBestTradeFromTokens\<close> nor \<open>calculateTrade\<close>. There is no quote exactly when no
  selected provider's calculation resolves to an object. With at least one provider
  selected, the calculation is rejected with the one error
  \<open>No success providers calculation for the trade\<close> when there is no quote, and resolves to
  the quotes as \<open>sortTrades\<close> ranks them, a non-empty permutation of them, when there is
  one.
\<close>

theorem C2_nonempty_or_aggregate_failure:
  fixes m :: cross_chain_manager
    and from_token :: price_token_amount
    and to_token :: price_token
    and options :: required_swap_manager_options
    and selected quotes
  defines "selected \<equiv>
             filter (\<lambda>entry. fst entry \<notin> set (disabledProviders options)
                       \<and> \<not> (fst entry = RUBIC
                            \<and> celerIsSupportedBlockchain m (blockchain from_token)
                            \<and> celerIsSupportedBlockchain m (blockchain to_token)))
               [(RUBIC, rubicCalculate m), (CELER, celerCalculate m),
                (SYMBIOSIS, symbiosisCalculate m), (LIFI, lifiCalculate m)]"
      and "quotes \<equiv>
             concat (map (\<lambda>entry.
                            case pTimeout m (snd entry from_token to_token
                                               (providersOptions_of options))
                                   (timeout options) of
                              Inl e \<Rightarrow> []
                            | Inr None \<Rightarrow> []
                            | Inr (Some wrappedTrade) \<Rightarrow>
                                [\<lparr>trade = trade wrappedTrade,
                                  trade_error = trade_error wrappedTrade,
                                  tradeType = fst entry\<rparr>])
                       selected)"
  assumes engine: "\<forall>comparefn xs. mset (implementation_defined_sort m comparefn xs) = mset xs"
  shows "snd (calculateBestTradeFromTokens m from_token to_token options) \<noteq> Inr []
       \<and> snd (calculateTrade m fromToken fromAmount toToken opts) \<noteq> Inr []
       \<and> (quotes = [] \<longleftrightarrow>
            (\<forall>entry \<in> set selected.
               \<forall>wrappedTrade. pTimeout m (snd entry from_token to_token
                                            (providersOptions_of options)) (timeout options)
                                \<noteq> Inr (Some wrappedTrade)))
       \<and> (selected \<noteq> [] \<longrightarrow>
            (quotes = [] \<longrightarrow>
               snd (calculateBestTradeFromTokens m from_token to_token options)
                 = Inl (RubicSdkError ''No success providers calculation for the trade''))
          \<and> (quotes \<noteq> [] \<longrightarrow>
               snd (calculateBestTradeFromTokens m from_token to_token options)
                 = Inr (sortTrades m quotes)
             \<and> mset (sortTrades m quotes) = mset quotes
             \<and> sortTrades m quotes \<noteq> []))"
proof -
  let ?g = "\<lambda>entry :: cross_chain_trade_type \<times> (price_token_amount \<Rightarrow> price_token
                        \<Rightarrow> required_cross_chain_options \<Rightarrow> exn + calculated_trade option).
              (fst entry, \<lparr>provider_type = fst entry, calculate = snd entry\<rparr>)"
  let ?providers = "filter (provider_enabled m (disabledProviders options)
                              (blockchain from_token) (blockchain to_token)) (tradeProviders m)"
  have p: "?providers = map ?g selected"
    unfolding selected_def by (rule selected_providers)
  have q: "List.map_filter (calculationPromise m from_token to_token (providersOptions_of options)
                              (timeout options)) ?providers = quotes"
    unfolding p quotes_def by (rule collected_quotes)
  have pe: "?providers = [] \<longleftrightarrow> selected = []"
    by (simp add: p)
  have r: "snd (calculateTradeFromTokens m from_token to_token options)
             = (if selected = [] then Inl (RubicSdkError ''There are no providers for trade'')
                else if quotes = []
                then Inl (RubicSdkError ''No success providers calculation for the trade'')
                else Inr quotes)"
    unfolding calculateTradeFromTokens_result Let_def q pe by simp
  have a: "snd (calculateBestTradeFromTokens m from_token to_token options) \<noteq> Inr []"
    using engine by (rule calculateBestTradeFromTokens_not_empty)
  have b: "snd (calculateTrade m fromToken fromAmount toToken opts) \<noteq> Inr []"
    using engine by (rule calculateTrade_not_empty)
  have c: "quotes = [] \<longleftrightarrow>
            (\<forall>entry \<in> set selected.
               \<forall>wrappedTrade. pTimeout m (snd entry from_token to_token
                                            (providersOptions_of options)) (timeout options)
                                \<noteq> Inr (Some wrappedTrade))"
    unfolding quotes_def by (auto split: sum.splits option.splits)
  have d: "selected \<noteq> [] \<longrightarrow>
            (quotes = [] \<longrightarrow>
               snd (calculateBestTradeFromTokens m from_token to_token options)
                 = Inl (RubicSdkError ''No success providers calculation for the trade''))
          \<and> (quotes \<noteq> [] \<longrightarrow>
               snd (calculateBestTradeFromTokens m from_token to_token options)
                 = Inr (sortTrades m quotes)
             \<and> mset (sortTrades m quotes) = mset quotes
             \<and> sortTrades m quotes \<noteq> [])"
    using sortTrades_mset[OF engine, of quotes] sortTrades_empty_iff[OF engine, of quotes]
    by (simp add: calculateBestTradeFromTokens_result r)
  show ?thesis using a b c d by blast
qed

theorem C2_nonempty_or_aggregate_failure_witness:
  "snd (calculateBestTradeFromTokens failing_manager example_from example_to
          (getFullOptions failing_manager no_options))
     = Inl (RubicSdkError ''No success providers calculation for the trade'')
   \<and> snd (calculateBestTradeFromTokens example_manager example_from example_to
            (getFullOptions example_manager no_options))
     = Inr [lifiQuote, celerQuote]"
proof -
  let ?o = "getFullOptions failing_manager no_options"
  let ?o' = "getFullOptions example_manager no_options"
  have e1: "\<forall>comparefn xs. mset (implementation_defined_sort failing_manager comparefn xs) = mset xs"
    by (simp add: failing_manager_def example_manager_def mset_array_sort)
  have e2: "\<forall>comparefn xs. mset (implementation_defined_sort example_manager comparefn xs) = mset xs"
    by (simp add: example_manager_def mset_array_sort)
  have a: "snd (calculateBestTradeFromTokens failing_manager example_from example_to ?o)
             = Inl (RubicSdkError ''No success providers calculation for the trade'')"
    using C2_nonempty_or_aggregate_failure
            [where m = failing_manager and from_token = example_from and to_token = example_to
               and options = ?o, OF e1]
    by (simp add: failing_manager_def example_manager_def getFullOptions_def no_options_def
          example_from_def example_to_def)
  have "snd (calculateBestTradeFromTokens example_manager example_from example_to ?o')
          = Inr (sortTrades example_manager [celerQuote, lifiQuote])"
    using C2_nonempty_or_aggregate_failure
            [where m = example_manager and from_token = example_from and to_token = example_to
               and options = ?o', OF e2]
    by (simp add: example_manager_def getFullOptions_def no_options_def
          example_from_def example_to_def celerQuote_def lifiQuote_def)
  moreover have "sortTrades example_manager [celerQuote, lifiQuote] = [lifiQuote, celerQuote]"
    by code_simp
  ultimately show ?thesis using a by simp
qed

text \<open>
  The claim as stated fails for a provider that answers with an error object: with Li.Fi
  the only enabled provider and its calculation resolving to \<open>{trade: null, error}\<close>, as the
  \<open>catch\<close> handler of a provider does, the calculation resolves to the list that holds this
  failed quote, and is not rejected.
\<close>

theorem C2_error_object_counterexample:
  "snd (calculateBestTradeFromTokens error_manager example_from example_to
          (getFullOptions error_manager
             (no_options\<lparr>opt_disabledProviders := Some [RUBIC, CELER, SYMBIOSIS]\<rparr>)))
     = Inr [\<lparr>trade = None, trade_error = Some (RubicSdkError ''Min amount''), tradeType = LIFI\<rparr>]"
  by code_simp

subsection \<open>Validation\<close>

text \<open>
  Claim C5, as the code has it. When the destination is passed as an instance of \<open>Token\<close>
  and lies on the source's blockchain (an identical token and chain pair included),
  \<open>calculateTrade\<close> is rejected at once with the validation error: the priced tokens are
  not requested and no provider is invoked. A destination passed as a plain object is not
  checked: the calculation goes on to request the priced tokens.
\<close>

theorem C5_validation:
  "(instanceof_Token toToken \<and> input_blockchain fromToken = input_blockchain toToken
      \<longrightarrow> calculateTrade m fromToken fromAmount toToken opts
            = ([], Inl (RubicSdkError ''Blockchains of from and to tokens must be different.'')))
   \<and> (\<not> instanceof_Token toToken
      \<longrightarrow> (\<exists>events. fst (calculateTrade m fromToken fromAmount toToken opts)
                       = PriceTokensRequested # events))"
proof (intro conjI impI)
  assume "instanceof_Token toToken \<and> input_blockchain fromToken = input_blockchain toToken"
  then show "calculateTrade m fromToken fromAmount toToken opts
               = ([], Inl (RubicSdkError ''Blockchains of from and to tokens must be different.''))"
    by (simp add: calculateTrade_def)
next
  assume plain: "\<not> instanceof_Token toToken"
  show "\<exists>events. fst (calculateTrade m fromToken fromAmount toToken opts)
                   = PriceTokensRequested # events"
  proof (cases "getPriceTokensFromInputTokens m fromToken fromAmount toToken")
    case (Inl e)
    then show ?thesis using plain by (simp add: calculateTrade_def)
  next
    case (Inr priced)
    then show ?thesis
      using plain by (simp add: calculateTrade_def split: prod.splits)
  qed
qed

theorem C5_validation_witness:
  "calculateTrade example_manager (PlainObject ''0xA0'' ''ETH'') ''1'' (Token ''0xA0'' ''ETH'')
     no_options
     = ([], Inl (RubicSdkError ''Blockchains of from and to tokens must be different.''))
   \<and> (\<exists>events. fst (calculateTrade example_manager (PlainObject ''0xA0'' ''ETH'') ''1''
                      (PlainObject ''0xB0'' ''BSC'') no_options)
                 = PriceTokensRequested # events)"
  using C5_validation
          [of "Token ''0xA0'' ''ETH''" "PlainObject ''0xA0'' ''ETH''" example_manager "''1''"
              no_options]
        C5_validation
          [of "PlainObject ''0xB0'' ''BSC''" "PlainObject ''0xA0'' ''ETH''" example_manager "''1''"
              no_options]
  by simp

text \<open>
  The claim as stated fails for plain objects: with source and destination both
  \<open>{address: '0xA0', blockchain: 'ETH'}\<close> the priced tokens are requested, three providers
  are invoked and their quotes are returned.
\<close>

theorem C5_plain_object_counterexample:
  "calculateTrade example_manager (PlainObject ''0xA0'' ''ETH'') ''1'' (PlainObject ''0xA0'' ''ETH'')
     no_options
     = ([PriceTokensRequested, ProviderCalculate CELER, ProviderCalculate SYMBIOSIS,
         ProviderCalculate LIFI],
        Inr [lifiQuote, celerQuote])"
  by code_simp

subsection \<open>Ranking\<close>




















end
